theory Spec2Isabelle
  imports Main
begin

unbundle bit_operations_syntax

section \<open>Image buffers\<close>

text \<open>
  The program works on \<^verbatim>\<open>np.array(img)\<close> of an RGB image: a three-dimensional
  array indexed (row, column, channel). A buffer is the list of its rows, a row the list
  of its pixels, a pixel the list of its channel values. Element values are integers; an
  array of dtype \<^verbatim>\<open>uint8\<close> is a buffer all of whose elements lie in 0..255
  (\<open>uint8_buffer\<close>), and the cast \<^verbatim>\<open>.astype(np.uint8)\<close> is written out as
  \<open>mod 256\<close>.
\<close>

type_synonym pixel = "int list"
type_synonym buffer = "pixel list list"

definition uint8 :: "int \<Rightarrow> bool" where
  "uint8 x = (0 \<le> x \<and> x \<le> 255)"

definition uint8_buffer :: "buffer \<Rightarrow> bool" where
  "uint8_buffer arr = list_all (list_all (list_all uint8)) arr"

text \<open>
  \<open>has_shape arr h w c\<close>: \<^verbatim>\<open>arr.shape == (h, w, c)\<close>. An array is rectangular: every
  row has \<open>w\<close> pixels and every pixel \<open>c\<close> channels.
\<close>

definition has_shape :: "buffer \<Rightarrow> nat \<Rightarrow> nat \<Rightarrow> nat \<Rightarrow> bool" where
  "has_shape arr h w c =
     (length arr = h \<and> list_all (\<lambda>row. length row = w \<and> list_all (\<lambda>px. length px = c) row) arr)"

section \<open>Pixel transform primitives\<close>

text \<open>
  \<^verbatim>\<open>arr[::-1, ::-1]\<close>: the slice with step -1 on axis 0 (rows) and on axis 1 (columns);
  axis 2 (channels) is not sliced.
\<close>

definition swap_pixels :: "buffer \<Rightarrow> buffer" where
  "swap_pixels arr = rev (map rev arr)"

text \<open>
  \<^verbatim>\<open>np.bitwise_xor(arr, key).astype(np.uint8)\<close>: every element is XORed with the key
  and the result is cast to eight unsigned bits, which keeps the value modulo 256. For a
  \<^verbatim>\<open>uint8\<close> array and a key in 0..255, every NumPy version computes this value; the
  treatment of a key outside that range depends on the NumPy version (older versions
  widen the result and the cast truncates it, as below; newer ones raise), so the
  theorems about keys assume the range the command line enforces.
\<close>

definition xor_elem :: "int \<Rightarrow> int \<Rightarrow> int" where
  "xor_elem key x = (x XOR key) mod 256"

definition xor_pixels :: "buffer \<Rightarrow> int \<Rightarrow> buffer" where
  "xor_pixels arr key = map (map (map (xor_elem key))) arr"

section \<open>Transform orchestrator\<close>

definition encrypt_array :: "buffer \<Rightarrow> int \<Rightarrow> string \<Rightarrow> buffer" where
  "encrypt_array arr key mode =
     (let arr1 = (if mode \<in> set [''math'', ''both''] then xor_pixels arr key else arr);
          arr2 = (if mode \<in> set [''swap'', ''both''] then swap_pixels arr1 else arr1)
      in arr2)"

definition decrypt_array :: "buffer \<Rightarrow> int \<Rightarrow> string \<Rightarrow> buffer" where
  "decrypt_array arr key mode =
     (let arr1 = (if mode \<in> set [''swap'', ''both''] then swap_pixels arr else arr);
          arr2 = (if mode \<in> set [''math'', ''both''] then xor_pixels arr1 key else arr1)
      in arr2)"

text \<open>A 2 x 2 x 3 buffer with four distinct pixels, used to instantiate the theorems.\<close>

definition sample :: buffer where
  "sample = [[[1, 2, 3], [40, 50, 60]], [[70, 80, 90], [200, 0, 255]]]"

section \<open>Exceptions, library and world\<close>

text \<open>
  The exceptions the program raises or lets through. \<open>SystemExit 2\<close> is how
  \<^verbatim>\<open>argparse\<close> reports a usage error: \<^verbatim>\<open>parser.error\<close> writes the usage text and the
  message of the first offending argument to standard error and exits with status 2.
  The text of that message is not modelled.
\<close>

datatype exn =
    ArgumentTypeError string
  | SystemExit int
  | ValueError string
  | FileNotFoundError
  | DecodeError
  | EncodeError

text \<open>
  What the program uses and does not define is a parameter:
  \<^item> \<open>int_of_str\<close> is Python's \<^verbatim>\<open>int(value)\<close> on a string, \<open>None\<close> when it raises
    \<^verbatim>\<open>ValueError\<close>;
  \<^item> \<open>image_open\<close> is \<^verbatim>\<open>np.array(Image.open(path).convert("RGB"))\<close> on the bytes of
    the file, \<open>None\<close> when the image library raises;
  \<^item> \<open>image_save\<close> is \<^verbatim>\<open>Image.fromarray(arr).save(path)\<close>, giving the bytes written at
    the path, \<open>None\<close> when the image library raises.
\<close>

record library =
  int_of_str :: "string \<Rightarrow> int option"
  image_open :: "string \<Rightarrow> buffer option"
  image_save :: "string \<Rightarrow> buffer \<Rightarrow> string option"

text \<open>
  The world the program acts on: the regular files (path to bytes), the lines printed on
  standard output, and the record of the steps of \<open>process_image\<close> that were started,
  in order.
\<close>

datatype step = Decode | Transform | Encode

record world =
  files :: "string \<rightharpoonup> string"
  stdout :: "string list"
  steps :: "step list"

text \<open>\<^verbatim>\<open>os.path.isfile(path)\<close>.\<close>

definition isfile :: "world \<Rightarrow> string \<Rightarrow> bool" where
  "isfile w path = (files w path \<noteq> None)"

definition print :: "string \<Rightarrow> world \<Rightarrow> world" where
  "print line w = w\<lparr>stdout := stdout w @ [line]\<rparr>"

definition begin_step :: "step \<Rightarrow> world \<Rightarrow> world" where
  "begin_step st w = w\<lparr>steps := steps w @ [st]\<rparr>"

text \<open>\<^verbatim>\<open>str.capitalize()\<close> on ASCII: first character upper case, the rest lower case.\<close>

definition upper_char :: "char \<Rightarrow> char" where
  "upper_char c =
     (let n = of_char c :: nat in if 97 \<le> n \<and> n \<le> 122 then char_of (n - 32) else c)"

definition lower_char :: "char \<Rightarrow> char" where
  "lower_char c =
     (let n = of_char c :: nat in if 65 \<le> n \<and> n \<le> 90 then char_of (n + 32) else c)"

fun capitalize :: "string \<Rightarrow> string" where
  "capitalize [] = []"
| "capitalize (c # cs) = upper_char c # map lower_char cs"

section \<open>Image I/O and command surface\<close>

text \<open>
  \<open>process_image\<close>: open and decode, transform, encode and save, print. Every raise is an
  \<open>Inl\<close>. What a failed save leaves at the output path is not modelled (the files are
  left as they were).
\<close>

definition process_image ::
  "library \<Rightarrow> world \<Rightarrow> string \<Rightarrow> string \<Rightarrow> int \<Rightarrow> string \<Rightarrow> string \<Rightarrow> world \<times> (exn + unit)"
where
  "process_image lib w input_path output_path key mode operation =
     (let w1 = begin_step Decode w in
      case files w1 input_path of
        None \<Rightarrow> (w1, Inl FileNotFoundError)
      | Some data \<Rightarrow>
          (case image_open lib data of
             None \<Rightarrow> (w1, Inl DecodeError)
           | Some arr \<Rightarrow>
               if operation \<noteq> ''encrypt'' \<and> operation \<noteq> ''decrypt''
               then (w1, Inl (ValueError (''operation must be 'encrypt' or 'decrypt'' @ [CHR 0x27])))
               else
                 let w2 = begin_step Transform w1;
                     result_arr = (if operation = ''encrypt'' then encrypt_array arr key mode
                                   else decrypt_array arr key mode);
                     w3 = begin_step Encode w2
                 in case image_save lib output_path result_arr of
                      None \<Rightarrow> (w3, Inl EncodeError)
                    | Some bytes \<Rightarrow>
                        (print (capitalize operation @ ''ed image saved to: '' @ output_path)
                           (w3\<lparr>files := (files w3)(output_path \<mapsto> bytes)\<rparr>),
                         Inr ())))"

definition key_error :: exn where
  "key_error = ArgumentTypeError ''Key must be an integer between 0 and 255''"

definition positive_int :: "library \<Rightarrow> string \<Rightarrow> exn + int" where
  "positive_int lib v =
     (case int_of_str lib v of
        None \<Rightarrow> Inl key_error
      | Some ivalue \<Rightarrow>
          if \<not> (0 \<le> ivalue \<and> ivalue \<le> 255) then Inl key_error else Inr ivalue)"

text \<open>
  The command line as \<^verbatim>\<open>argparse\<close> splits it: the strings given for the three
  positional arguments, and for \<^verbatim>\<open>--key\<close> and \<^verbatim>\<open>--mode\<close> the string given or \<open>None\<close>
  when the flag is omitted. \<open>parse_args\<close> applies what \<open>main\<close> declares for each
  argument: the choices of \<^verbatim>\<open>operation\<close> and \<^verbatim>\<open>--mode\<close>, the type \<open>positive_int\<close> and the
  default 123 of \<^verbatim>\<open>--key\<close>, the default \<^verbatim>\<open>both\<close> of \<^verbatim>\<open>--mode\<close>. An
  \<open>ArgumentTypeError\<close> of the type function, or a value outside the choices, becomes the
  usage error \<open>SystemExit 2\<close>.
\<close>

record cmdline =
  operation_arg :: string
  input_arg :: string
  output_arg :: string
  key_arg :: "string option"
  mode_arg :: "string option"

record namespace =
  ns_operation :: string
  ns_input :: string
  ns_output :: string
  ns_key :: int
  ns_mode :: string

definition parse_args :: "library \<Rightarrow> cmdline \<Rightarrow> exn + namespace" where
  "parse_args lib cl =
     (if operation_arg cl \<notin> set [''encrypt'', ''decrypt''] then Inl (SystemExit 2)
      else
        case (case key_arg cl of None \<Rightarrow> Inr 123 | Some v \<Rightarrow> positive_int lib v) of
          Inl e \<Rightarrow> Inl (SystemExit 2)
        | Inr k \<Rightarrow>
            let m = (case mode_arg cl of None \<Rightarrow> ''both'' | Some v \<Rightarrow> v) in
            if m \<notin> set [''swap'', ''math'', ''both''] then Inl (SystemExit 2)
            else Inr \<lparr>ns_operation = operation_arg cl, ns_input = input_arg cl,
                       ns_output = output_arg cl, ns_key = k, ns_mode = m\<rparr>)"

definition missing_input_message :: "string \<Rightarrow> string" where
  "missing_input_message path =
     ''Error: input file '' @ [CHR 0x27] @ path @ [CHR 0x27] @ '' does not exist.''"

definition main :: "library \<Rightarrow> world \<Rightarrow> cmdline \<Rightarrow> world \<times> (exn + unit)" where
  "main lib w cl =
     (case parse_args lib cl of
        Inl e \<Rightarrow> (w, Inl e)
      | Inr args \<Rightarrow>
          if \<not> isfile w (ns_input args)
          then (print (missing_input_message (ns_input args)) w, Inr ())
          else process_image lib w (ns_input args) (ns_output args) (ns_key args)
                 (ns_mode args) (ns_operation args))"

section \<open>A concrete library\<close>

text \<open>
  An instance of the library, to run the command surface on concrete command lines.
  \<open>py_int\<close> follows Python's \<^verbatim>\<open>int\<close> on an ASCII string in base 10: white space around
  the number is skipped, one sign is allowed, the digits may be separated by single
  underscores, and more than 4300 digits are refused (the default limit of the
  interpreter). Everything else raises \<^verbatim>\<open>ValueError\<close>.
\<close>

definition is_space :: "char \<Rightarrow> bool" where
  "is_space c = (c \<in> set [CHR 0x20, CHR 0x09, CHR 0x0A, CHR 0x0B, CHR 0x0C, CHR 0x0D])"

definition is_digit :: "char \<Rightarrow> bool" where
  "is_digit c = (let n = of_char c :: nat in 48 \<le> n \<and> n \<le> 57)"

fun digits_underscores :: "string \<Rightarrow> bool" where
  "digits_underscores [] = False"
| "digits_underscores [c] = is_digit c"
| "digits_underscores (c # d # cs) =
     (is_digit c \<and> (if d = CHR ''_'' then digits_underscores cs else digits_underscores (d # cs)))"

fun decimal_value :: "nat \<Rightarrow> string \<Rightarrow> nat" where
  "decimal_value acc [] = acc"
| "decimal_value acc (c # cs) = decimal_value (10 * acc + (of_char c - 48)) cs"

definition py_int :: "string \<Rightarrow> int option" where
  "py_int s =
     (let t = rev (dropWhile is_space (rev (dropWhile is_space s)));
          neg = (t \<noteq> [] \<and> hd t = CHR ''-'');
          body = (if t \<noteq> [] \<and> (hd t = CHR ''-'' \<or> hd t = CHR ''+'') then tl t else t);
          ds = filter (\<lambda>c. c \<noteq> CHR ''_'') body
      in if \<not> digits_underscores body \<or> 4300 < length ds then None
         else Some (if neg then - int (decimal_value 0 ds) else int (decimal_value 0 ds)))"

text \<open>
  A toy image format for the instance: the file is one row of RGB pixels, three bytes
  each.
\<close>

fun raw_pixels :: "string \<Rightarrow> pixel list" where
  "raw_pixels (r # g # b # cs) = [int (of_char r), int (of_char g), int (of_char b)] # raw_pixels cs"
| "raw_pixels cs = []"

definition raw_open :: "string \<Rightarrow> buffer option" where
  "raw_open data = (if data \<noteq> [] \<and> length data mod 3 = 0 then Some [raw_pixels data] else None)"

definition raw_save :: "string \<Rightarrow> buffer \<Rightarrow> string option" where
  "raw_save path arr = Some (map (\<lambda>x. char_of (nat x)) (concat (concat arr)))"

definition demo_library :: library where
  "demo_library = \<lparr>int_of_str = py_int, image_open = raw_open, image_save = raw_save\<rparr>"

definition demo_world :: world where
  "demo_world = \<lparr>files = [''in.raw'' \<mapsto> ''abcxyz''], stdout = [], steps = []\<rparr>"

section \<open>Auxiliary facts\<close>

lemma xor_elem_uint8: "uint8 (xor_elem key x)"
  by (simp add: xor_elem_def uint8_def)

lemma xor_elem_twice:
  assumes "uint8 x"
  shows "xor_elem key (xor_elem key x) = x"
proof -
  have "xor_elem key (xor_elem key x) = take_bit 8 (take_bit 8 (x XOR key) XOR key)"
    by (simp add: xor_elem_def take_bit_eq_mod)
  also have "\<dots> = take_bit 8 x XOR (take_bit 8 key XOR take_bit 8 key)"
    by (simp add: xor.assoc)
  also have "\<dots> = take_bit 8 x"
    by simp
  also have "\<dots> = x"
    using assms by (simp add: take_bit_int_eq_self uint8_def)
  finally show ?thesis .
qed

lemma xor_pixels_twice:
  assumes "uint8_buffer arr"
  shows "xor_pixels (xor_pixels arr key) key = arr"
  using assms
  by (auto simp: xor_pixels_def uint8_buffer_def list_all_iff xor_elem_twice intro!: map_idI)

lemma swap_pixels_twice: "swap_pixels (swap_pixels arr) = arr"
  by (simp add: swap_pixels_def rev_map [symmetric] map_idI)

lemma swap_xor_commute: "swap_pixels (xor_pixels arr key) = xor_pixels (swap_pixels arr) key"
  by (simp add: swap_pixels_def xor_pixels_def rev_map)

lemma uint8_buffer_xor: "uint8_buffer (xor_pixels arr key)"
  by (simp add: uint8_buffer_def xor_pixels_def list_all_iff xor_elem_uint8)

lemma uint8_buffer_swap: "uint8_buffer arr \<Longrightarrow> uint8_buffer (swap_pixels arr)"
  by (simp add: uint8_buffer_def swap_pixels_def list_all_iff)

lemma has_shape_swap: "has_shape arr h w c \<Longrightarrow> has_shape (swap_pixels arr) h w c"
  by (simp add: has_shape_def swap_pixels_def list_all_iff)

lemma has_shape_xor: "has_shape arr h w c \<Longrightarrow> has_shape (xor_pixels arr key) h w c"
  by (simp add: has_shape_def xor_pixels_def list_all_iff)

lemma swap_pixels_nth:
  assumes "has_shape arr h w c" and "i < h" and "j < w"
  shows "swap_pixels arr ! i ! j = arr ! (h - 1 - i) ! (w - 1 - j)"
proof -
  from assms have len: "length arr = h" and i': "h - 1 - i < length arr"
    by (auto simp: has_shape_def)
  from assms(1) i' have row: "length (arr ! (h - 1 - i)) = w"
    by (auto simp: has_shape_def list_all_length)
  from len assms(2) have "swap_pixels arr ! i = rev (arr ! (h - 1 - i))"
    by (simp add: swap_pixels_def rev_nth)
  with row assms(3) show ?thesis
    by (simp add: rev_nth)
qed

lemma encrypt_array_modes:
  "encrypt_array arr key ''swap'' = swap_pixels arr"
  "encrypt_array arr key ''math'' = xor_pixels arr key"
  "encrypt_array arr key ''both'' = swap_pixels (xor_pixels arr key)"
  by (simp_all add: encrypt_array_def)

lemma decrypt_array_modes:
  "decrypt_array arr key ''swap'' = swap_pixels arr"
  "decrypt_array arr key ''math'' = xor_pixels arr key"
  "decrypt_array arr key ''both'' = xor_pixels (swap_pixels arr) key"
  by (simp_all add: decrypt_array_def)

lemma uint8_buffer_sample: "uint8_buffer sample"
  by (simp add: uint8_buffer_def uint8_def sample_def)

lemma has_shape_sample: "has_shape sample 2 2 3"
  by (simp add: has_shape_def sample_def)

section \<open>Properties of the transform\<close>

text \<open>
  C1 (round trip). For every \<^verbatim>\<open>uint8\<close> buffer \<open>B\<close>, every key \<open>k\<close> in 0..255 and every
  mode among swap, math and both, decrypting the encryption of \<open>B\<close> with the same key
  and mode gives back \<open>B\<close>.
\<close>

theorem round_trip:
  assumes "uint8_buffer B" and "0 \<le> k" and "k \<le> 255"
    and "m \<in> {''swap'', ''math'', ''both''}"
  shows "decrypt_array (encrypt_array B k m) k m = B"
proof -
  from assms(4) consider "m = ''swap''" | "m = ''math''" | "m = ''both''"
    by auto
  then show ?thesis
  proof cases
    case 1
    then show ?thesis
      by (simp add: encrypt_array_modes decrypt_array_modes swap_pixels_twice)
  next
    case 2
    with assms(1) show ?thesis
      by (simp add: encrypt_array_modes decrypt_array_modes xor_pixels_twice)
  next
    case 3
    with assms(1) show ?thesis
      by (simp add: encrypt_array_modes decrypt_array_modes swap_pixels_twice xor_pixels_twice)
  qed
qed

theorem round_trip_witness:
  "uint8_buffer sample \<and> (0::int) \<le> 123 \<and> (123::int) \<le> 255
   \<and> ''both'' \<in> {''swap'', ''math'', ''both''}
   \<and> encrypt_array sample 123 ''both'' \<noteq> sample
   \<and> decrypt_array (encrypt_array sample 123 ''both'') 123 ''both'' = sample"
  using round_trip [of sample 123 "''both''"] uint8_buffer_sample
  by (simp add: encrypt_array_modes sample_def swap_pixels_def xor_pixels_def xor_elem_def)

text \<open>
  C2 (composition order for mode both). For every buffer \<open>B\<close> and key \<open>k\<close> in 0..255,
  encryption in mode both is the XOR step followed by the reversal, and decryption in
  mode both is the reversal followed by the XOR step.
\<close>

theorem both_composition_order:
  assumes "0 \<le> k" and "k \<le> 255"
  shows "encrypt_array B k ''both'' = swap_pixels (xor_pixels B k)
         \<and> decrypt_array B k ''both'' = xor_pixels (swap_pixels B) k"
  by (simp add: encrypt_array_def decrypt_array_def)

theorem both_composition_order_witness:
  "(0::int) \<le> 10 \<and> (10::int) \<le> 255
   \<and> encrypt_array sample 10 ''both'' = swap_pixels (xor_pixels sample 10)
   \<and> decrypt_array sample 10 ''both'' = xor_pixels (swap_pixels sample) 10
   \<and> swap_pixels (xor_pixels sample 10)
       = [[[194, 10, 245], [76, 90, 80]], [[34, 56, 54], [11, 8, 9]]]"
  using both_composition_order [of 10 sample]
  by (simp add: sample_def swap_pixels_def xor_pixels_def xor_elem_def)

text \<open>
  C3 (reversal involution). Reversing rows and columns twice gives back the buffer. The
  statement holds for every buffer, so in particular for every non-empty one.
\<close>

theorem swap_pixels_involution: "swap_pixels (swap_pixels B) = B"
  by (simp add: swap_pixels_def rev_map [symmetric] map_idI)

text \<open>
  C4 (XOR involution). For every \<^verbatim>\<open>uint8\<close> buffer \<open>B\<close> and every key \<open>k\<close> in 0..255,
  applying the XOR step twice with \<open>k\<close> gives back \<open>B\<close>.
\<close>

theorem xor_pixels_involution:
  assumes "uint8_buffer B" and "0 \<le> k" and "k \<le> 255"
  shows "xor_pixels (xor_pixels B k) k = B"
  using assms(1) by (rule xor_pixels_twice)

theorem xor_pixels_involution_witness:
  "uint8_buffer sample \<and> (0::int) \<le> 255 \<and> (255::int) \<le> 255
   \<and> xor_pixels sample 255 = [[[254, 253, 252], [215, 205, 195]], [[185, 175, 165], [55, 255, 0]]]
   \<and> xor_pixels (xor_pixels sample 255) 255 = sample"
  using xor_pixels_involution [of sample 255] uint8_buffer_sample
  by (simp add: sample_def xor_pixels_def xor_elem_def)

text \<open>
  C5 (reversal semantics). For a buffer \<open>B\<close> of shape \<open>(H, W, C)\<close> with at least one row
  and one column, \<open>swap_pixels B\<close> has shape \<open>(H, W, C)\<close>; its pixel at \<open>(i, j)\<close> is the
  pixel of \<open>B\<close> at \<open>(H-1-i, W-1-j)\<close>, as a whole and so with its channels in the same
  order; its element at \<open>(i, j, c)\<close> is the element of \<open>B\<close> at \<open>(H-1-i, W-1-j, c)\<close>; and
  its pixel at \<open>(0, 0)\<close> is the pixel of \<open>B\<close> at \<open>(H-1, W-1)\<close>. The number of channels
  \<open>C\<close> is arbitrary, 3 for the RGB buffers of the program.
\<close>

theorem swap_pixels_semantics:
  assumes "has_shape B H W C" and "0 < H" and "0 < W"
  shows "has_shape (swap_pixels B) H W C
         \<and> (\<forall>i<H. \<forall>j<W. swap_pixels B ! i ! j = B ! (H - 1 - i) ! (W - 1 - j))
         \<and> (\<forall>i<H. \<forall>j<W. \<forall>c<C. swap_pixels B ! i ! j ! c = B ! (H - 1 - i) ! (W - 1 - j) ! c)
         \<and> swap_pixels B ! 0 ! 0 = B ! (H - 1) ! (W - 1)"
proof -
  have shape: "has_shape (swap_pixels B) H W C"
    using assms(1) by (rule has_shape_swap)
  have px: "swap_pixels B ! i ! j = B ! (H - 1 - i) ! (W - 1 - j)" if "i < H" "j < W" for i j
    using assms(1) that by (rule swap_pixels_nth)
  have corner: "swap_pixels B ! 0 ! 0 = B ! (H - 1) ! (W - 1)"
    using px [of 0 0] assms(2,3) by simp
  from shape px corner show ?thesis
    by simp
qed

theorem swap_pixels_semantics_witness:
  "has_shape sample 2 2 3 \<and> (0::nat) < 2
   \<and> has_shape (swap_pixels sample) 2 2 3
   \<and> swap_pixels sample ! 0 ! 0 = [200, 0, 255]
   \<and> swap_pixels sample ! 0 ! 0 = sample ! (2 - 1) ! (2 - 1)
   \<and> swap_pixels sample ! 0 ! 1 ! 2 = sample ! (2 - 1 - 0) ! (2 - 1 - 1) ! 2
   \<and> swap_pixels sample = [[[200, 0, 255], [70, 80, 90]], [[40, 50, 60], [1, 2, 3]]]"
  using swap_pixels_semantics [of sample 2 2 3] has_shape_sample
  by (simp add: sample_def swap_pixels_def)

text \<open>
  C6 (range invariant). For every buffer \<open>B\<close> whose elements are in 0..255 and every key
  \<open>k\<close> in 0..255, every element of \<open>swap_pixels B\<close>, of \<open>xor_pixels B k\<close>, and of
  \<open>encrypt_array B k m\<close> and \<open>decrypt_array B k m\<close> for any mode \<open>m\<close>, is in 0..255.
\<close>

theorem range_invariant:
  assumes "uint8_buffer B" and "0 \<le> k" and "k \<le> 255"
  shows "uint8_buffer (swap_pixels B) \<and> uint8_buffer (xor_pixels B k)
         \<and> uint8_buffer (encrypt_array B k m) \<and> uint8_buffer (decrypt_array B k m)"
proof -
  have swap: "uint8_buffer (swap_pixels A)" if "uint8_buffer A" for A
    using that by (rule uint8_buffer_swap)
  have xor: "uint8_buffer (xor_pixels A k)" for A
    by (rule uint8_buffer_xor)
  have enc: "uint8_buffer (encrypt_array B k m)"
    using assms(1) swap xor by (simp add: encrypt_array_def Let_def)
  have dec: "uint8_buffer (decrypt_array B k m)"
    using assms(1) swap xor by (simp add: decrypt_array_def Let_def)
  from swap [OF assms(1)] xor enc dec show ?thesis
    by simp
qed

theorem range_invariant_witness:
  "uint8_buffer sample \<and> (0::int) \<le> 255 \<and> (255::int) \<le> 255
   \<and> uint8_buffer (swap_pixels sample) \<and> uint8_buffer (xor_pixels sample 255)
   \<and> uint8_buffer (encrypt_array sample 255 ''both'')
   \<and> uint8_buffer (decrypt_array sample 255 ''both'')
   \<and> encrypt_array sample 255 ''both''
       = [[[55, 255, 0], [185, 175, 165]], [[215, 205, 195], [254, 253, 252]]]"
  using range_invariant [of sample 255 "''both''"] uint8_buffer_sample
  by (simp add: encrypt_array_modes sample_def swap_pixels_def xor_pixels_def xor_elem_def)

text \<open>
  C9 (encryption and decryption coincide). For every buffer \<open>B\<close>, every key \<open>k\<close> in 0..255
  and every mode among swap, math and both, \<open>encrypt_array B k m\<close> and
  \<open>decrypt_array B k m\<close> are the same buffer: the XOR with one key for all elements
  commutes with the reversal of rows and columns.
\<close>

theorem encrypt_eq_decrypt:
  assumes "0 \<le> k" and "k \<le> 255" and "m \<in> {''swap'', ''math'', ''both''}"
  shows "encrypt_array B k m = decrypt_array B k m"
  using assms(3)
  by (auto simp: encrypt_array_modes decrypt_array_modes swap_xor_commute)

theorem encrypt_eq_decrypt_witness:
  "(0::int) \<le> 123 \<and> (123::int) \<le> 255 \<and> ''both'' \<in> {''swap'', ''math'', ''both''}
   \<and> encrypt_array sample 123 ''both'' = decrypt_array sample 123 ''both''
   \<and> decrypt_array sample 123 ''both''
       = [[[179, 123, 132], [61, 43, 33]], [[83, 73, 71], [122, 121, 120]]]"
  using encrypt_eq_decrypt [of 123 "''both''" sample]
  by (simp add: decrypt_array_modes sample_def swap_pixels_def xor_pixels_def xor_elem_def)

text \<open>
  C10 (shape preservation). For every buffer \<open>B\<close> of shape \<open>(H, W, C)\<close>, every key \<open>k\<close> in
  0..255 and every mode among swap, math and both, \<open>encrypt_array B k m\<close> and
  \<open>decrypt_array B k m\<close> have shape \<open>(H, W, C)\<close>.
\<close>

theorem shape_preserved:
  assumes "has_shape B H W C" and "0 \<le> k" and "k \<le> 255"
    and "m \<in> {''swap'', ''math'', ''both''}"
  shows "has_shape (encrypt_array B k m) H W C \<and> has_shape (decrypt_array B k m) H W C"
  using assms(1,4)
  by (auto simp: encrypt_array_modes decrypt_array_modes has_shape_swap has_shape_xor)

theorem shape_preserved_witness:
  "has_shape sample 2 2 3 \<and> (0::int) \<le> 123 \<and> (123::int) \<le> 255
   \<and> ''both'' \<in> {''swap'', ''math'', ''both''}
   \<and> has_shape (encrypt_array sample 123 ''both'') 2 2 3
   \<and> has_shape (decrypt_array sample 123 ''both'') 2 2 3
   \<and> length (encrypt_array sample 123 ''both'') = 2
   \<and> map length (encrypt_array sample 123 ''both'') = [2, 2]
   \<and> map (map length) (encrypt_array sample 123 ''both'') = [[3, 3], [3, 3]]"
  using shape_preserved [of sample 2 2 3 123 "''both''"] has_shape_sample
  by (simp add: encrypt_array_modes sample_def swap_pixels_def xor_pixels_def)

section \<open>Properties of the command surface\<close>

lemma positive_int_rejects:
  assumes "int_of_str lib v = None \<or> (\<exists>i. int_of_str lib v = Some i \<and> (i < 0 \<or> 255 < i))"
  shows "positive_int lib v = Inl key_error"
  using assms by (auto simp: positive_int_def)

lemma positive_int_accepts:
  assumes "int_of_str lib v = Some i" and "0 \<le> i" and "i \<le> 255"
  shows "positive_int lib v = Inr i"
  using assms by (simp add: positive_int_def)

lemma parse_args_Inl: "parse_args lib cl = Inl e \<Longrightarrow> e = SystemExit 2"
  by (auto simp: parse_args_def Let_def split: if_splits sum.splits)

lemma parse_args_Inr:
  assumes "parse_args lib cl = Inr args"
  shows "ns_operation args = operation_arg cl \<and> ns_input args = input_arg cl
         \<and> ns_output args = output_arg cl"
  using assms by (auto simp: parse_args_def Let_def split: if_splits sum.splits)

lemma parse_args_default_key:
  assumes "parse_args lib cl = Inr args" and "key_arg cl = None"
  shows "ns_key args = 123"
  using assms by (auto simp: parse_args_def Let_def split: if_splits)

lemma py_int_examples:
  "py_int ''256'' = Some 256" "py_int ''-1'' = Some (- 1)" "py_int ''abc'' = None"
  "py_int ''255'' = Some 255" "py_int '' 1_0 '' = Some 10"
  by (simp_all add: py_int_def is_space_def is_digit_def)

text \<open>
  With an input file that exists, the instance runs all three steps and writes the output:
  the existence check does not always fail.
\<close>

lemma main_existing_input_example:
  "main demo_library demo_world
     \<lparr>operation_arg = ''encrypt'', input_arg = ''in.raw'', output_arg = ''out.raw'',
      key_arg = Some ''1'', mode_arg = Some ''swap''\<rparr>
   = (\<lparr>files = [''in.raw'' \<mapsto> ''abcxyz'', ''out.raw'' \<mapsto> ''xyzabc''],
       stdout = [''Encrypted image saved to: out.raw''],
       steps = [Decode, Transform, Encode]\<rparr>, Inr ())"
  by (simp add: main_def parse_args_def positive_int_def demo_library_def demo_world_def
      py_int_def is_space_def is_digit_def isfile_def process_image_def begin_step_def
      raw_open_def raw_save_def encrypt_array_def swap_pixels_def print_def
      upper_char_def lower_char_def char_of_def bit_0)

text \<open>
  C7 (key validation). A value given for \<^verbatim>\<open>--key\<close> that \<^verbatim>\<open>int\<close> does not accept, or that
  is an integer below 0 or above 255, is refused by \<open>positive_int\<close>, and \<open>main\<close> ends with
  the usage error in the world it started in: no file is read or written, nothing is
  printed on standard output, no step of \<open>process_image\<close> is started. When \<^verbatim>\<open>--key\<close> is
  omitted, the key of every accepted command line is 123.
\<close>

theorem key_validation:
  "(key_arg cl = Some v
      \<and> (int_of_str lib v = None \<or> (\<exists>i. int_of_str lib v = Some i \<and> (i < 0 \<or> 255 < i)))
    \<longrightarrow> positive_int lib v = Inl key_error
        \<and> parse_args lib cl = Inl (SystemExit 2)
        \<and> main lib w cl = (w, Inl (SystemExit 2)))
   \<and> (key_arg cl = None \<longrightarrow> (\<forall>args. parse_args lib cl = Inr args \<longrightarrow> ns_key args = 123))"
proof (intro conjI impI allI)
  assume bad: "key_arg cl = Some v
      \<and> (int_of_str lib v = None \<or> (\<exists>i. int_of_str lib v = Some i \<and> (i < 0 \<or> 255 < i)))"
  then show rej: "positive_int lib v = Inl key_error"
    by (simp add: positive_int_rejects)
  with bad show usage: "parse_args lib cl = Inl (SystemExit 2)"
    by (simp add: parse_args_def)
  then show "main lib w cl = (w, Inl (SystemExit 2))"
    by (simp add: main_def)
next
  fix args
  assume "key_arg cl = None" and "parse_args lib cl = Inr args"
  then show "ns_key args = 123"
    by (simp add: parse_args_default_key)
qed

theorem key_validation_witness:
  "main demo_library demo_world
     \<lparr>operation_arg = ''encrypt'', input_arg = ''in.raw'', output_arg = ''out.raw'',
      key_arg = Some ''256'', mode_arg = None\<rparr> = (demo_world, Inl (SystemExit 2))
   \<and> main demo_library demo_world
     \<lparr>operation_arg = ''encrypt'', input_arg = ''in.raw'', output_arg = ''out.raw'',
      key_arg = Some ''-1'', mode_arg = None\<rparr> = (demo_world, Inl (SystemExit 2))
   \<and> main demo_library demo_world
     \<lparr>operation_arg = ''encrypt'', input_arg = ''in.raw'', output_arg = ''out.raw'',
      key_arg = Some ''abc'', mode_arg = None\<rparr> = (demo_world, Inl (SystemExit 2))
   \<and> parse_args demo_library
     \<lparr>operation_arg = ''encrypt'', input_arg = ''in.raw'', output_arg = ''out.raw'',
      key_arg = None, mode_arg = None\<rparr>
     = Inr \<lparr>ns_operation = ''encrypt'', ns_input = ''in.raw'', ns_output = ''out.raw'',
            ns_key = 123, ns_mode = ''both''\<rparr>"
  using
    key_validation [of "\<lparr>operation_arg = ''encrypt'', input_arg = ''in.raw'',
      output_arg = ''out.raw'', key_arg = Some ''256'', mode_arg = None\<rparr>" "''256''"
      demo_library demo_world]
    key_validation [of "\<lparr>operation_arg = ''encrypt'', input_arg = ''in.raw'',
      output_arg = ''out.raw'', key_arg = Some ''-1'', mode_arg = None\<rparr>" "''-1''"
      demo_library demo_world]
    key_validation [of "\<lparr>operation_arg = ''encrypt'', input_arg = ''in.raw'',
      output_arg = ''out.raw'', key_arg = Some ''abc'', mode_arg = None\<rparr>" "''abc''"
      demo_library demo_world]
    key_validation [of "\<lparr>operation_arg = ''encrypt'', input_arg = ''in.raw'',
      output_arg = ''out.raw'', key_arg = None, mode_arg = None\<rparr>" "[]"
      demo_library demo_world]
  by (simp add: demo_library_def py_int_examples parse_args_def)

text \<open>
  C8 (missing input file), as stated: every invocation whose input path does not name an
  existing regular file prints an error message and returns without raising. This fails
  for a command line the parser rejects: \<open>parse_args\<close> runs before the existence check,
  so with \<^verbatim>\<open>--key 256\<close> and a missing input the program leaves through the usage error
  \<open>SystemExit 2\<close> and prints nothing on standard output.
\<close>

theorem missing_input_counterexample:
  "\<not> isfile demo_world ''nope.raw''
   \<and> main demo_library demo_world
       \<lparr>operation_arg = ''encrypt'', input_arg = ''nope.raw'', output_arg = ''out.raw'',
        key_arg = Some ''256'', mode_arg = None\<rparr>
     = (demo_world, Inl (SystemExit 2))
   \<and> snd (main demo_library demo_world
       \<lparr>operation_arg = ''encrypt'', input_arg = ''nope.raw'', output_arg = ''out.raw'',
        key_arg = Some ''256'', mode_arg = None\<rparr>) \<noteq> Inr ()
   \<and> stdout (fst (main demo_library demo_world
       \<lparr>operation_arg = ''encrypt'', input_arg = ''nope.raw'', output_arg = ''out.raw'',
        key_arg = Some ''256'', mode_arg = None\<rparr>)) = []"
  by (simp add: main_def parse_args_def positive_int_def demo_library_def demo_world_def
      py_int_examples isfile_def)

text \<open>
  C8, amended. For every invocation whose input path does not name an existing regular
  file: if the parser accepts the command line, \<open>main\<close> prints the error message naming
  the path and returns without raising; if the parser rejects it, \<open>main\<close> leaves through
  the usage error; and in both cases no decode, no transform and no encode is started and
  the files, so the output file too, are what they were.
\<close>

theorem missing_input_file:
  assumes "\<not> isfile w (input_arg cl)"
  shows "(\<forall>args. parse_args lib cl = Inr args \<longrightarrow>
            main lib w cl = (print (missing_input_message (input_arg cl)) w, Inr ()))
         \<and> (\<forall>e. parse_args lib cl = Inl e \<longrightarrow> main lib w cl = (w, Inl (SystemExit 2)))
         \<and> files (fst (main lib w cl)) = files w
         \<and> steps (fst (main lib w cl)) = steps w"
proof -
  have accepted: "main lib w cl = (print (missing_input_message (input_arg cl)) w, Inr ())"
    if "parse_args lib cl = Inr args" for args
  proof -
    from that have "ns_input args = input_arg cl"
      by (simp add: parse_args_Inr)
    with that assms show ?thesis
      by (simp add: main_def)
  qed
  have rejected: "main lib w cl = (w, Inl (SystemExit 2))" if "parse_args lib cl = Inl e" for e
  proof -
    from that have "e = SystemExit 2"
      by (rule parse_args_Inl)
    with that show ?thesis
      by (simp add: main_def)
  qed
  have unchanged: "files (fst (main lib w cl)) = files w \<and> steps (fst (main lib w cl)) = steps w"
  proof (cases "parse_args lib cl")
    case (Inl e)
    then show ?thesis
      by (simp add: rejected)
  next
    case (Inr args)
    then show ?thesis
      by (simp add: accepted print_def)
  qed
  from accepted rejected unchanged show ?thesis
    by blast
qed

theorem missing_input_file_witness:
  "\<not> isfile demo_world ''nope.raw''
   \<and> main demo_library demo_world
       \<lparr>operation_arg = ''decrypt'', input_arg = ''nope.raw'', output_arg = ''out.raw'',
        key_arg = Some ''255'', mode_arg = Some ''math''\<rparr>
     = (demo_world\<lparr>stdout := [''Error: input file '' @ [CHR 0x27] @ ''nope.raw'' @ [CHR 0x27]
                                  @ '' does not exist.'']\<rparr>, Inr ())
   \<and> files (fst (main demo_library demo_world
       \<lparr>operation_arg = ''decrypt'', input_arg = ''nope.raw'', output_arg = ''out.raw'',
        key_arg = Some ''255'', mode_arg = Some ''math''\<rparr>)) ''out.raw'' = None"
  using missing_input_file [of demo_world
      "\<lparr>operation_arg = ''decrypt'', input_arg = ''nope.raw'', output_arg = ''out.raw'',
        key_arg = Some ''255'', mode_arg = Some ''math''\<rparr>" demo_library]
  by (simp add: parse_args_def positive_int_def demo_library_def demo_world_def
      py_int_examples isfile_def print_def missing_input_message_def)

end
